theory Spec2Isabelle
  imports Complex_Main "HOL-Library.AList"
begin

section \<open>Values, exceptions and the outside world\<close>

text \<open>
  The values \<open>response.json()\<close> hands to the client. Python's \<open>json\<close> module maps the
  JSON \<open>null\<close> to \<open>None\<close>, so \<open>JNull\<close> is Python's \<open>None\<close>; an object is a \<open>dict\<close> (kept
  as an association list in insertion order, keys distinct after parsing), an array is a
  \<open>list\<close>. A float is carried as its literal: the client never computes with one.
  Strings are byte strings (UTF-8).
\<close>

datatype json =
    JNull
  | JBool bool
  | JInt int
  | JFloat string
  | JStr string
  | JArr "json list"
  | JObj "(string \<times> json) list"

text \<open>
  The exceptions that can leave the client. \<open>PyException\<close> is the built-in \<open>Exception\<close>
  raised as such; \<open>TVDBException\<close>, \<open>NotFoundException\<close> and
  \<open>TVDBAuthenticationException\<close> are the classes of \<open>libtvdb.exceptions\<close>;
  \<open>RequestsTimeout\<close> is any instance of \<open>requests.exceptions.Timeout\<close> (its subclasses
  included), \<open>RequestsError\<close> any other exception of the transport, by class name.
\<close>

datatype exc =
    PyException string
  | AttributeError string
  | TypeError string
  | UnboundLocalError string
  | JSONDecodeError
  | TVDBException string
  | NotFoundException string
  | TVDBAuthenticationException string
  | RequestsTimeout
  | RequestsError string

text \<open>\<open>except requests.exceptions.Timeout\<close> catches exactly these.\<close>

fun is_timeout :: "exc \<Rightarrow> bool" where
  "is_timeout RequestsTimeout = True"
| "is_timeout _ = False"

datatype http_method = GET | POST

text \<open>
  A header value is a literal string, or the f-string \<open>f"Bearer {self.auth_token}"\<close>, kept
  with the token it formats.
\<close>

datatype header_value = Literal string | Bearer json

record request =
  req_method :: http_method
  req_url :: string
  req_json :: "(string \<times> string) list option"
  req_headers :: "(string \<times> header_value) list"
  req_timeout :: rat

text \<open>
  A \<open>requests.Response\<close>: \<open>resp_json\<close> is what \<open>response.json()\<close> returns, \<open>None\<close> when it
  raises \<open>json.JSONDecodeError\<close>.
\<close>

record response =
  status_code :: int
  resp_text :: string
  resp_json :: "json option"

datatype outcome = Responds response | Raises exc

text \<open>
  The network: what the \<open>n\<close>-th call of the session (counted from 0) does with the
  request it is given.
\<close>

type_synonym transport = "nat \<Rightarrow> request \<Rightarrow> outcome"

datatype log_level = Debug | Info | Warning | Error

text \<open>
  The world outside the client: the network calls made so far, oldest first, and the
  messages handed to \<open>Log\<close>.
\<close>

record world =
  calls :: "request list"
  log_events :: "(log_level \<times> string) list"

text \<open>
  Modelled from the spec: \<open>libtvdb.utilities.Log\<close> is not among the sources. It accepts
  levelled messages, returns nothing and does not raise.
\<close>

definition log_msg :: "log_level \<Rightarrow> string \<Rightarrow> world \<Rightarrow> world" where
  "log_msg lvl msg w = w\<lparr>log_events := log_events w @ [(lvl, msg)]\<rparr>"

text \<open>\<open>requests.post\<close> and \<open>requests.get\<close>: one network call.\<close>

definition send :: "transport \<Rightarrow> request \<Rightarrow> world \<Rightarrow> outcome \<times> world" where
  "send net rq w = (net (length (calls w)) rq, w\<lparr>calls := calls w @ [rq]\<rparr>)"

subsection \<open>Python helpers\<close>

definition digit_char :: "nat \<Rightarrow> char" where
  "digit_char d = ''0123456789'' ! d"

fun str_nat :: "nat \<Rightarrow> string" where
  "str_nat n = (if n < 10 then [digit_char n] else str_nat (n div 10) @ [digit_char (n mod 10)])"

declare str_nat.simps [simp del]

text \<open>\<open>str(i)\<close> of a Python int, as an f-string formats it.\<close>

definition str_int :: "int \<Rightarrow> string" where
  "str_int i = (if i < 0 then CHR ''-'' # str_nat (nat (- i)) else str_nat (nat i))"

fun type_name :: "json \<Rightarrow> string" where
  "type_name JNull = ''NoneType''"
| "type_name (JBool b) = ''bool''"
| "type_name (JInt i) = ''int''"
| "type_name (JFloat f) = ''float''"
| "type_name (JStr s) = ''str''"
| "type_name (JArr xs) = ''list''"
| "type_name (JObj kvs) = ''dict''"

text \<open>
  \<open>v.get(key)\<close>: on a dict the value, \<open>None\<close> for a missing key; any other value has no
  attribute \<open>get\<close>.
\<close>

fun py_get :: "json \<Rightarrow> string \<Rightarrow> exc + json" where
  "py_get (JObj kvs) k = Inr (case map_of kvs k of None \<Rightarrow> JNull | Some v \<Rightarrow> v)"
| "py_get v k = Inl (AttributeError ([CHR 0x27] @ type_name v @ [CHR 0x27] @ '' object has no attribute '' @ [CHR 0x27] @ ''get'' @ [CHR 0x27]))"

text \<open>
  The characters of a Python \<open>str\<close> are its code points. In the UTF-8 bytes of the string
  a code point is a byte that is no continuation byte (\<open>0x80\<close> to \<open>0xBF\<close>) together with
  the continuation bytes that follow it; \<open>code_points\<close> collects them from the right.
\<close>

definition is_continuation :: "char \<Rightarrow> bool" where
  "is_continuation ch = (128 \<le> (of_char ch :: nat) \<and> (of_char ch :: nat) < 192)"

fun join_code_point :: "char \<Rightarrow> string list \<Rightarrow> string list" where
  "join_code_point ch ((b # g) # gs) =
     (if is_continuation b then (ch # b # g) # gs else [ch] # (b # g) # gs)"
| "join_code_point ch gs = [ch] # gs"

definition code_points :: "string \<Rightarrow> string list" where
  "code_points s = foldr join_code_point s []"

text \<open>
  \<open>for x in v\<close>: a list gives its elements, a dict its keys, a str its characters (one
  string per code point); the other values are not iterable.
\<close>

fun py_iter :: "json \<Rightarrow> exc + json list" where
  "py_iter (JArr xs) = Inr xs"
| "py_iter (JObj kvs) = Inr (map (\<lambda>kv. JStr (fst kv)) kvs)"
| "py_iter (JStr s) = Inr (map JStr (code_points s))"
| "py_iter v = Inl (TypeError ([CHR 0x27] @ type_name v @ [CHR 0x27] @ '' object is not iterable''))"

section \<open>The client\<close>

text \<open>\<open>auth_token\<close> is \<open>JNull\<close> (Python's \<open>None\<close>) until a login has stored a token.\<close>

record client =
  api_key :: string
  user_key :: string
  user_name :: string
  auth_token :: json

definition AUTH_TIMEOUT :: rat where
  "AUTH_TIMEOUT = 3"

definition MAX_AUTH_RETRY_COUNT :: int where
  "MAX_AUTH_RETRY_COUNT = 3"

definition BASE_API :: string where
  "BASE_API = ''https://api.thetvdb.com''"

text \<open>
  \<open>__init__\<close>. \<open>get_password\<close> is \<open>keyper.get_password\<close>, the keychain lookup by label; it
  is asked only for an argument that is \<open>None\<close>, and a failure ends the construction
  before the next secret is looked at.
\<close>

definition init ::
  "(string \<Rightarrow> string option) \<Rightarrow> string option \<Rightarrow> string option \<Rightarrow> string option \<Rightarrow> exc + client" where
  "init get_password api_key0 user_key0 user_name0 =
     (let api_key1 = (if api_key0 = None then get_password ''libtvdb_api_key'' else api_key0) in
      case api_key1 of
        None \<Rightarrow> Inl (PyException ''No API key was supplied or could be found in the keychain'')
      | Some ak \<Rightarrow>
     (let user_key1 = (if user_key0 = None then get_password ''libtvdb_user_key'' else user_key0) in
      case user_key1 of
        None \<Rightarrow> Inl (PyException ''No user key was supplied or could be found in the keychain'')
      | Some uk \<Rightarrow>
     (let user_name1 = (if user_name0 = None then get_password ''libtvdb_user_name'' else user_name0) in
      case user_name1 of
        None \<Rightarrow> Inl (PyException ''No user name was supplied or could be found in the keychain'')
      | Some un \<Rightarrow>
          Inr \<lparr>api_key = ak, user_key = uk, user_name = un, auth_token = JNull\<rparr>)))"

definition expand_url :: "string \<Rightarrow> string" where
  "expand_url path = BASE_API @ ''/'' @ path"

text \<open>
  \<open>_construct_headers\<close>: \<open>headers[k] = v\<close> replaces the value of a key already there and
  appends a new key, which is \<open>AList.update\<close>.
\<close>

definition construct_headers ::
  "client \<Rightarrow> (string \<times> header_value) list option \<Rightarrow> (string \<times> header_value) list" where
  "construct_headers c additional_headers =
     (let headers0 = [(''Accept'', Literal ''application/json'')];
          headers1 = (if auth_token c \<noteq> JNull
                      then AList.update ''Authorization'' (Bearer (auth_token c)) headers0
                      else headers0)
      in case additional_headers of
           None \<Rightarrow> headers1
         | Some items \<Rightarrow> fold (\<lambda>(header_name, header_value). AList.update header_name header_value) items headers1)"

definition login_body :: "client \<Rightarrow> (string \<times> string) list" where
  "login_body c = [(''apikey'', api_key c), (''userkey'', user_key c), (''username'', user_name c)]"

text \<open>The arguments of the \<open>requests.post\<close> call of \<open>authenticate\<close>.\<close>

definition login_request :: "client \<Rightarrow> request" where
  "login_request c =
     \<lparr>req_method = POST, req_url = expand_url ''login'', req_json = Some (login_body c),
      req_headers = construct_headers c None, req_timeout = AUTH_TIMEOUT\<rparr>"

text \<open>
  The retry loop of \<open>authenticate\<close>, over the values of \<open>i\<close> still to come. A response
  breaks out of the loop; a timeout goes on to the next \<open>i\<close> or, at the last one, raises
  the built-in \<open>Exception\<close>; any other exception is not caught. A loop that ends with no
  response leaves \<open>response\<close> unbound.
\<close>

fun login_attempts :: "transport \<Rightarrow> client \<Rightarrow> int list \<Rightarrow> world \<Rightarrow> (exc + response) \<times> world" where
  "login_attempts net c [] w = (Inl (UnboundLocalError ''response''), w)"
| "login_attempts net c (i # rest) w =
     (case send net (login_request c) w of
        (Responds r, w1) \<Rightarrow> (Inr r, w1)
      | (Raises e, w1) \<Rightarrow>
          if is_timeout e then
            (if i < MAX_AUTH_RETRY_COUNT - 1
             then login_attempts net c rest (log_msg Warning ''Authentication timed out, but will retry.'' w1)
             else (Inl (PyException ''Authentication timed out maximum number of times.''),
                   log_msg Error ''Authentication timed out maximum number of times.'' w1))
          else (Inl e, w1))"

definition authenticate :: "transport \<Rightarrow> client \<Rightarrow> world \<Rightarrow> (exc + unit) \<times> client \<times> world" where
  "authenticate net c w =
     (if auth_token c \<noteq> JNull
      then (Inr (), c, log_msg Debug ''Already authenticated, skipping'' w)
      else
        case login_attempts net c [0 .. MAX_AUTH_RETRY_COUNT - 1] (log_msg Info ''Authenticating...'' w) of
          (Inl e, w1) \<Rightarrow> (Inl e, c, w1)
        | (Inr r, w1) \<Rightarrow>
            if status_code r < 200 \<or> status_code r \<ge> 300
            then (Inl (TVDBAuthenticationException
                         (''Authentication failed with status code: '' @ str_int (status_code r))),
                  c,
                  log_msg Error (''Authentication failed withs status code: '' @ str_int (status_code r)) w1)
            else
              (case resp_json r of
                 None \<Rightarrow> (Inl JSONDecodeError, c, w1)
               | Some content \<Rightarrow>
                   (case py_get content ''token'' of
                      Inl e \<Rightarrow> (Inl e, c, w1)
                    | Inr token \<Rightarrow>
                        if token = JNull
                        then (Inl (TVDBAuthenticationException ''Failed to get token from login request''),
                              c,
                              log_msg Error ''Failed to get token from login request'' w1)
                        else (Inr (), c\<lparr>auth_token := token\<rparr>,
                              log_msg Info ''Authenticated successfully'' w1))))"

text \<open>The arguments of the \<open>requests.get\<close> call of \<open>get\<close>.\<close>

definition get_request :: "client \<Rightarrow> string \<Rightarrow> rat \<Rightarrow> request" where
  "get_request c url_path timeout =
     \<lparr>req_method = GET, req_url = expand_url url_path, req_json = None,
      req_headers = construct_headers c None, req_timeout = timeout\<rparr>"

text \<open>What \<open>get\<close> does with the response, once it has one.\<close>

definition classify_response :: "string \<Rightarrow> response \<Rightarrow> exc + json" where
  "classify_response url_path r =
     (if status_code r < 200 \<or> status_code r \<ge> 300
      then
        (case resp_json r of
           None \<Rightarrow> Inl (TVDBException (''Could not decode error response: '' @ resp_text r))
         | Some data \<Rightarrow>
             (case py_get data ''Error'' of
                Inl e \<Rightarrow> Inl e
              | Inr error \<Rightarrow>
                  if error = JNull
                  then Inl (TVDBException (''Could not get error information: '' @ resp_text r))
                  else if error = JStr ''Resource not found''
                  then Inl (NotFoundException (''Could not find resource for path: '' @ url_path))
                  else Inl (TVDBException (''Unknown error: '' @ resp_text r))))
      else
        (case resp_json r of
           None \<Rightarrow> Inl JSONDecodeError
         | Some content \<Rightarrow>
             (case py_get content ''data'' of
                Inl e \<Rightarrow> Inl e
              | Inr data \<Rightarrow>
                  if data = JNull
                  then Inl (NotFoundException (''Could not get data for path: '' @ url_path))
                  else Inr data)))"

definition get :: "transport \<Rightarrow> string option \<Rightarrow> rat \<Rightarrow> client \<Rightarrow> world \<Rightarrow> (exc + json) \<times> client \<times> world" where
  "get net url_path timeout c w =
     (if url_path = None \<or> url_path = Some ''''
      then (Inl (AttributeError ''An invalid URL path was supplied''), c, w)
      else
        let p = the url_path in
        case authenticate net c w of
          (Inl e, c1, w1) \<Rightarrow> (Inl e, c1, w1)
        | (Inr u, c1, w1) \<Rightarrow>
            (case send net (get_request c1 p timeout) (log_msg Info (''GET: '' @ p) w1) of
               (Raises e, w2) \<Rightarrow> (Inl e, c1, w2)
             | (Responds r, w2) \<Rightarrow> (classify_response p r, c1, w2)))"

text \<open>
  The loop of \<open>search_show\<close>: \<open>shows.append(Show.from_json(show_data))\<close> for each item, in
  order; an exception of \<open>Show.from_json\<close> ends the loop.
\<close>

fun convert_shows :: "(json \<Rightarrow> exc + 's) \<Rightarrow> json list \<Rightarrow> 's list \<Rightarrow> exc + 's list" where
  "convert_shows from_json [] shows = Inr shows"
| "convert_shows from_json (show_data # rest) shows =
     (case from_json show_data of
        Inl e \<Rightarrow> Inl e
      | Inr s \<Rightarrow> convert_shows from_json rest (shows @ [s]))"

text \<open>
  \<open>search_show\<close>. \<open>quote\<close> is \<open>urllib.parse.quote\<close> and \<open>from_json\<close> is \<open>Show.from_json\<close>
  (\<open>libtvdb.model.show\<close> is not among the sources); both are parameters.
\<close>

definition search_show ::
  "transport \<Rightarrow> (string \<Rightarrow> string) \<Rightarrow> (json \<Rightarrow> exc + 's) \<Rightarrow> string option \<Rightarrow> rat \<Rightarrow> client \<Rightarrow> world
     \<Rightarrow> (exc + 's list) \<times> client \<times> world" where
  "search_show net quote from_json show_name timeout c w =
     (if show_name = None \<or> show_name = Some ''''
      then (Inr [], c, w)
      else
        let encoded_name = quote (the show_name) in
        case get net (Some (''search/series?name='' @ encoded_name)) timeout c
               (log_msg Info (''Searching for show: '' @ the show_name) w) of
          (Inl e, c1, w1) \<Rightarrow> (Inl e, c1, w1)
        | (Inr shows_data, c1, w1) \<Rightarrow>
            (case py_iter shows_data of
               Inl e \<Rightarrow> (Inl e, c1, w1)
             | Inr items \<Rightarrow> (convert_shows from_json items [], c1, w1)))"

section \<open>Notions of the specification\<close>

text \<open>An outcome of a network call that the retry loop catches as a timeout.\<close>

fun timed_out :: "outcome \<Rightarrow> bool" where
  "timed_out (Raises e) = is_timeout e"
| "timed_out (Responds r) = False"

text \<open>
  The specification's AuthenticationError is the library's typed
  \<open>TVDBAuthenticationException\<close>.
\<close>

definition raises_authentication_error :: "exc + 'a \<Rightarrow> bool" where
  "raises_authentication_error res =
     (case res of Inl (TVDBAuthenticationException m) \<Rightarrow> True | _ \<Rightarrow> False)"

text \<open>
  The specification's generic API error is \<open>TVDBException\<close> raised as such, its
  NotFoundError is \<open>NotFoundException\<close>.
\<close>

definition raises_api_error :: "exc + 'a \<Rightarrow> bool" where
  "raises_api_error res = (case res of Inl (TVDBException m) \<Rightarrow> True | _ \<Rightarrow> False)"

definition raises_not_found :: "exc + 'a \<Rightarrow> bool" where
  "raises_not_found res = (case res of Inl (NotFoundException m) \<Rightarrow> True | _ \<Rightarrow> False)"

text \<open>
  A resolved secret, in the specification's words: the explicit argument, or else what
  the credential source finds under the label.
\<close>

definition resolve_secret :: "(string \<Rightarrow> string option) \<Rightarrow> string \<Rightarrow> string option \<Rightarrow> string option" where
  "resolve_secret get_password label arg = (case arg of Some v \<Rightarrow> Some v | None \<Rightarrow> get_password label)"


section \<open>Concrete sessions\<close>

text \<open>
  A network that answers the calls of a session from a script, in order, and refuses the
  connection once the script is used up.
\<close>

definition scripted :: "outcome list \<Rightarrow> transport" where
  "scripted outs n rq = (if n < length outs then outs ! n else Raises (RequestsError ''ConnectionError''))"

definition demo_client :: client where
  "demo_client = \<lparr>api_key = ''k1'', user_key = ''k2'', user_name = ''joe'', auth_token = JNull\<rparr>"

definition fresh_world :: world where
  "fresh_world = \<lparr>calls = [], log_events = []\<rparr>"

definition json_response :: "int \<Rightarrow> string \<Rightarrow> json \<Rightarrow> outcome" where
  "json_response code txt v = Responds \<lparr>status_code = code, resp_text = txt, resp_json = Some v\<rparr>"

definition login_ok :: outcome where
  \<open>login_ok = json_response 200 ''{"token": "abc123"}'' (JObj [(''token'', JStr ''abc123'')])\<close>

text \<open>The client and the world after the login of \<open>demo_client\<close> was answered with \<open>login_ok\<close>.\<close>

definition demo_session :: client where
  "demo_session = demo_client\<lparr>auth_token := JStr ''abc123''\<rparr>"

definition logged_in :: world where
  "logged_in = \<lparr>calls = [login_request demo_client],
       log_events = [(Info, ''Authenticating...''), (Info, ''Authenticated successfully'')]\<rparr>"

text \<open>Answers of the server to a GET.\<close>

definition server_error :: outcome where
  "server_error = Responds \<lparr>status_code = 500, resp_text = ''<html>Internal Server Error</html>'',
       resp_json = None\<rparr>"

definition resource_not_found :: outcome where
  \<open>resource_not_found = json_response 404 ''{"Error": "Resource not found"}''
       (JObj [(''Error'', JStr ''Resource not found'')])\<close>

definition not_authorized :: outcome where
  \<open>not_authorized = json_response 401 ''{"Error": "Not authorized"}''
       (JObj [(''Error'', JStr ''Not authorized'')])\<close>

definition empty_object :: "int \<Rightarrow> outcome" where
  "empty_object code = json_response code ''{}'' (JObj [])"

definition empty_array :: "int \<Rightarrow> outcome" where
  "empty_array code = json_response code ''[]'' (JArr [])"

definition null_data :: outcome where
  \<open>null_data = json_response 200 ''{"data": null}'' (JObj [(''data'', JNull)])\<close>

definition series_data :: outcome where
  \<open>series_data = json_response 200 ''{"data": {"id": 1, "seriesName": "The Wire"}}''
       (JObj [(''data'', JObj [(''id'', JInt 1), (''seriesName'', JStr ''The Wire'')])])\<close>


text \<open>What \<open>[].get\<close> raises.\<close>

definition list_attribute_error :: exc where
  "list_attribute_error = AttributeError ([CHR 0x27] @ ''list'' @ [CHR 0x27] @
     '' object has no attribute '' @ [CHR 0x27] @ ''get'' @ [CHR 0x27])"

text \<open>
  \<open>urllib.parse.quote\<close> with its default safe set (Python 3.7 and later), on the bytes of
  the name.
\<close>

definition safe_chars :: string where
  "safe_chars = ''ABCDEFGHIJKLMNOPQRSTUVWXYZabcdefghijklmnopqrstuvwxyz0123456789_.-~/''"

definition hex_digit :: "nat \<Rightarrow> char" where
  "hex_digit d = ''0123456789ABCDEF'' ! d"

definition quote_byte :: "char \<Rightarrow> string" where
  "quote_byte ch = (if ch \<in> set safe_chars then [ch]
     else [CHR ''%'', hex_digit (of_char ch div 16), hex_digit (of_char ch mod 16)])"

definition url_quote :: "string \<Rightarrow> string" where
  "url_quote s = concat (map quote_byte s)"

text \<open>
  Modelled from the spec: \<open>Show.from_json\<close> is not among the sources. A Show is an integer
  identifier plus descriptive fields built from a JSON object; a missing optional field
  is absent in the Show rather than an error.
\<close>

record tv_show =
  show_id :: int
  series_name :: "string option"

definition show_from_json :: "json \<Rightarrow> exc + tv_show" where
  "show_from_json v =
     (case v of
        JObj kvs \<Rightarrow>
          (case map_of kvs ''id'' of
             Some (JInt i) \<Rightarrow>
               Inr \<lparr>show_id = i,
                    series_name = (case map_of kvs ''seriesName'' of Some (JStr s) \<Rightarrow> Some s | _ \<Rightarrow> None)\<rparr>
           | _ \<Rightarrow> Inl (TypeError ''id''))
      | _ \<Rightarrow> Inl (TypeError ''not a JSON object''))"

section \<open>The login loop\<close>

lemma upto_retry: "[0 .. (2::int)] = [0, 1, 2]"
  by (simp add: upto_rec1)

lemma timed_outE: "timed_out out \<Longrightarrow> (\<And>e. out = Raises e \<Longrightarrow> is_timeout e \<Longrightarrow> P) \<Longrightarrow> P"
  by (cases out) auto

text \<open>
  After \<open>k\<close> timeouts the first outcome that is not one ends the loop: \<open>k + 1\<close> POSTs, one
  warning per retry.
\<close>

lemma login_attempts_after_timeouts:
  assumes k: "k < 3"
    and t: "\<forall>j<k. timed_out (net (length (calls w) + j) (login_request c))"
    and nt: "\<not> timed_out (net (length (calls w) + k) (login_request c))"
  shows "login_attempts net c [0, 1, 2] w =
     ((case net (length (calls w) + k) (login_request c) of Responds r \<Rightarrow> Inr r | Raises e \<Rightarrow> Inl e),
      w\<lparr>calls := calls w @ replicate (Suc k) (login_request c),
        log_events := log_events w @ replicate k (Warning, ''Authentication timed out, but will retry.'')\<rparr>)"
proof -
  from k consider "k = 0" | "k = 1" | "k = 2" by linarith
  then show ?thesis
  proof cases
    case 1
    with nt show ?thesis
      by (cases "net (length (calls w)) (login_request c)") (simp_all add: send_def)
  next
    case 2
    from t[rule_format, of 0] 2 have "timed_out (net (length (calls w)) (login_request c))" by simp
    then obtain e0 where e0: "net (length (calls w)) (login_request c) = Raises e0" "is_timeout e0"
      by (auto elim: timed_outE)
    from nt 2 have nt': "\<not> timed_out (net (Suc (length (calls w))) (login_request c))" by simp
    show ?thesis using e0 nt' 2
      by (cases "net (Suc (length (calls w))) (login_request c)")
         (simp_all add: send_def log_msg_def MAX_AUTH_RETRY_COUNT_def)
  next
    case 3
    from t[rule_format, of 0] 3 have "timed_out (net (length (calls w)) (login_request c))" by simp
    then obtain e0 where e0: "net (length (calls w)) (login_request c) = Raises e0" "is_timeout e0"
      by (auto elim: timed_outE)
    from t[rule_format, of 1] 3 have "timed_out (net (Suc (length (calls w))) (login_request c))" by simp
    then obtain e1 where e1: "net (Suc (length (calls w))) (login_request c) = Raises e1" "is_timeout e1"
      by (auto elim: timed_outE)
    from nt 3 have nt': "\<not> timed_out (net (Suc (Suc (length (calls w)))) (login_request c))"
      by (simp add: numeral_2_eq_2)
    show ?thesis using e0 e1 nt' 3
      by (cases "net (Suc (Suc (length (calls w)))) (login_request c)")
         (simp_all add: send_def log_msg_def MAX_AUTH_RETRY_COUNT_def numeral_2_eq_2)
  qed
qed

text \<open>Whatever the network does, the loop only ever sends the login request.\<close>

lemma login_attempts_calls:
  "\<exists>k. k \<le> length is \<and> (is = [] \<or> 0 < k) \<and>
       calls (snd (login_attempts net c is w)) = calls w @ replicate k (login_request c)"
proof (induction "is" arbitrary: w)
  case Nil
  show ?case by simp
next
  case (Cons i rest)
  let ?w1 = "log_msg Warning ''Authentication timed out, but will retry.'' (w\<lparr>calls := calls w @ [login_request c]\<rparr>)"
  from Cons.IH[of ?w1] obtain k where k: "k \<le> length rest"
    "calls (snd (login_attempts net c rest ?w1)) = calls ?w1 @ replicate k (login_request c)" by blast
  have more: "calls ?w1 @ replicate k (login_request c) = calls w @ replicate (Suc k) (login_request c)"
    by (simp add: log_msg_def)
  show ?case
  proof (cases "net (length (calls w)) (login_request c)")
    case (Responds r)
    then have "calls (snd (login_attempts net c (i # rest) w)) = calls w @ replicate (Suc 0) (login_request c)"
      by (simp add: send_def)
    then show ?thesis by (intro exI[of _ "Suc 0"]) simp
  next
    case (Raises e)
    show ?thesis
    proof (cases "is_timeout e \<and> i < MAX_AUTH_RETRY_COUNT - 1")
      case True
      with Raises have "login_attempts net c (i # rest) w = login_attempts net c rest ?w1"
        by (simp add: send_def)
      with k more show ?thesis by (intro exI[of _ "Suc k"]) simp
    next
      case False
      with Raises have "calls (snd (login_attempts net c (i # rest) w)) = calls w @ replicate (Suc 0) (login_request c)"
        by (auto simp: send_def log_msg_def)
      then show ?thesis by (intro exI[of _ "Suc 0"]) simp
    qed
  qed
qed

lemma authenticate_calls:
  "\<exists>k. k \<le> 3 \<and> (auth_token c \<noteq> JNull \<or> 0 < k) \<and>
       calls (snd (snd (authenticate net c w))) = calls w @ replicate k (login_request c)"
proof (cases "auth_token c = JNull")
  case False
  then have "calls (snd (snd (authenticate net c w))) = calls w @ replicate 0 (login_request c)"
    by (simp add: authenticate_def log_msg_def)
  with False show ?thesis by (intro exI[of _ 0]) simp
next
  case True
  let ?w0 = "log_msg Info ''Authenticating...'' w"
  from login_attempts_calls[of "[0, 1, 2]" net c ?w0]
  obtain k where k: "k \<le> 3" "0 < k"
    "calls (snd (login_attempts net c [0, 1, 2] ?w0)) = calls w @ replicate k (login_request c)"
    by (auto simp: log_msg_def)
  have "calls (snd (snd (authenticate net c w))) = calls (snd (login_attempts net c [0, 1, 2] ?w0))"
    using True
    by (simp add: authenticate_def MAX_AUTH_RETRY_COUNT_def upto_retry log_msg_def
             split: prod.splits sum.splits option.splits)
  with k show ?thesis by (intro exI[of _ k]) simp
qed

text \<open>\<open>authenticate\<close> on a client without a token, with the range of the loop written out.\<close>

lemma authenticate_unfold:
  "auth_token c = JNull \<Longrightarrow>
   authenticate net c w =
     (case login_attempts net c [0, 1, 2] (log_msg Info ''Authenticating...'' w) of
          (Inl e, w1) \<Rightarrow> (Inl e, c, w1)
        | (Inr r, w1) \<Rightarrow>
            if status_code r < 200 \<or> status_code r \<ge> 300
            then (Inl (TVDBAuthenticationException
                         (''Authentication failed with status code: '' @ str_int (status_code r))),
                  c,
                  log_msg Error (''Authentication failed withs status code: '' @ str_int (status_code r)) w1)
            else
              (case resp_json r of
                 None \<Rightarrow> (Inl JSONDecodeError, c, w1)
               | Some content \<Rightarrow>
                   (case py_get content ''token'' of
                      Inl e \<Rightarrow> (Inl e, c, w1)
                    | Inr token \<Rightarrow>
                        if token = JNull
                        then (Inl (TVDBAuthenticationException ''Failed to get token from login request''),
                              c,
                              log_msg Error ''Failed to get token from login request'' w1)
                        else (Inr (), c\<lparr>auth_token := token\<rparr>,
                              log_msg Info ''Authenticated successfully'' w1))))"
  by (simp add: authenticate_def MAX_AUTH_RETRY_COUNT_def upto_retry)

text \<open>The f-string of a status code.\<close>

lemma str_int_401: "str_int 401 = ''401''"
  by (simp add: str_int_def str_nat.simps digit_char_def)

section \<open>Construction\<close>

text \<open>
  Claim C2 as stated fails: an empty string is a secret like any other to \<open>__init__\<close>,
  which only tests for \<open>None\<close>; the construction succeeds with an empty API key.
\<close>

theorem init_accepts_empty_secret:
  "init (\<lambda>label. None) (Some '''') (Some ''k2'') (Some ''joe'')
     = Inr \<lparr>api_key = '''', user_key = ''k2'', user_name = ''joe'', auth_token = JNull\<rparr>"
  by (simp add: init_def)

text \<open>
  Claim C2, amended: the construction succeeds exactly when each of the three secrets
  resolves (the explicit argument, or else the keychain entry, is not \<open>None\<close>; an empty
  string counts as resolved), and the client then holds the three resolved secrets and
  no token. When a secret does not resolve, the construction fails with the built-in
  \<open>Exception\<close> and there is no client.
\<close>

theorem init_succeeds_iff_resolved:
  "(init get_password a u n = Inr c) =
     (\<exists>x y z. resolve_secret get_password ''libtvdb_api_key'' a = Some x \<and>
              resolve_secret get_password ''libtvdb_user_key'' u = Some y \<and>
              resolve_secret get_password ''libtvdb_user_name'' n = Some z \<and>
              c = \<lparr>api_key = x, user_key = y, user_name = z, auth_token = JNull\<rparr>) \<and>
   (\<exists>m. init get_password a u n = Inl (PyException m)) =
     (resolve_secret get_password ''libtvdb_api_key'' a = None \<or>
      resolve_secret get_password ''libtvdb_user_key'' u = None \<or>
      resolve_secret get_password ''libtvdb_user_name'' n = None)"
  by (cases a; cases u; cases n;
      cases "get_password ''libtvdb_api_key''"; cases "get_password ''libtvdb_user_key''";
      cases "get_password ''libtvdb_user_name''")
     (auto simp: init_def resolve_secret_def)

text \<open>
  The amended claim C2 with the user key in the keychain only: the construction
  succeeds, and fails once the user name is neither given nor in the keychain.
\<close>

theorem init_succeeds_iff_resolved_witness:
  "init (\<lambda>label. if label = ''libtvdb_user_key'' then Some ''k2'' else None) (Some ''k1'') None (Some ''joe'')
     = Inr demo_client \<and>
   resolve_secret (\<lambda>label. if label = ''libtvdb_user_key'' then Some ''k2'' else None) ''libtvdb_user_name'' None = None \<and>
   (\<exists>m. init (\<lambda>label. if label = ''libtvdb_user_key'' then Some ''k2'' else None) (Some ''k1'') None None
     = Inl (PyException m))"
proof -
  let ?gp = "\<lambda>label. if label = ''libtvdb_user_key'' then Some ''k2'' else None"
  have r1: "resolve_secret ?gp ''libtvdb_api_key'' (Some ''k1'') = Some ''k1''"
    and r2: "resolve_secret ?gp ''libtvdb_user_key'' None = Some ''k2''"
    and r3: "resolve_secret ?gp ''libtvdb_user_name'' (Some ''joe'') = Some ''joe''"
    and r4: "resolve_secret ?gp ''libtvdb_user_name'' None = None"
    by (simp_all add: resolve_secret_def)
  from init_succeeds_iff_resolved[where get_password = ?gp and a = "Some ''k1''" and u = None
      and n = "Some ''joe''" and c = demo_client] r1 r2 r3
  have a: "init ?gp (Some ''k1'') None (Some ''joe'') = Inr demo_client"
    by (simp add: demo_client_def)
  from init_succeeds_iff_resolved[where get_password = ?gp and a = "Some ''k1''" and u = None
      and n = None and c = demo_client] r4
  have b: "\<exists>m. init ?gp (Some ''k1'') None None = Inl (PyException m)"
    by simp
  from a b r4 show ?thesis by simp
qed

section \<open>Authentication\<close>

subsection \<open>Three timeouts\<close>

text \<open>
  Claim C1 as stated fails: after three timeouts \<open>authenticate\<close> raises the built-in
  \<open>Exception\<close>, which is not the typed \<open>TVDBAuthenticationException\<close>.
\<close>

theorem authenticate_timeouts_raise_plain_exception:
  "fst (authenticate (scripted [Raises RequestsTimeout, Raises RequestsTimeout, Raises RequestsTimeout])
          demo_client fresh_world)
     = Inl (PyException ''Authentication timed out maximum number of times.'') \<and>
   \<not> raises_authentication_error
       (fst (authenticate (scripted [Raises RequestsTimeout, Raises RequestsTimeout, Raises RequestsTimeout])
          demo_client fresh_world))"
  by (simp add: authenticate_def upto_retry send_def log_msg_def MAX_AUTH_RETRY_COUNT_def
        scripted_def demo_client_def fresh_world_def raises_authentication_error_def)

text \<open>
  Claim C1, amended: for every client that holds no token, if all three login attempts
  time out, \<open>authenticate\<close> makes exactly 3 POSTs of the login request, logs a warning for
  each of the two retries, and then fails with the built-in \<open>Exception\<close> ("Authentication
  timed out maximum number of times."); the client is left as it was, without a token.
\<close>

theorem authenticate_three_timeouts:
  assumes tok: "auth_token c = JNull"
    and t: "\<forall>k<3. timed_out (net (length (calls w) + k) (login_request c))"
  shows "authenticate net c w =
    (Inl (PyException ''Authentication timed out maximum number of times.''), c,
     w\<lparr>calls := calls w @ replicate 3 (login_request c),
       log_events := log_events w @
         [(Info, ''Authenticating...''),
          (Warning, ''Authentication timed out, but will retry.''),
          (Warning, ''Authentication timed out, but will retry.''),
          (Error, ''Authentication timed out maximum number of times.'')]\<rparr>)"
proof -
  from t[rule_format, of 0] have "timed_out (net (length (calls w)) (login_request c))" by simp
  then obtain e0 where e0: "net (length (calls w)) (login_request c) = Raises e0" "is_timeout e0"
    by (auto elim: timed_outE)
  from t[rule_format, of 1] have "timed_out (net (Suc (length (calls w))) (login_request c))" by simp
  then obtain e1 where e1: "net (Suc (length (calls w))) (login_request c) = Raises e1" "is_timeout e1"
    by (auto elim: timed_outE)
  from t[rule_format, of 2] have "timed_out (net (Suc (Suc (length (calls w)))) (login_request c))" by simp
  then obtain e2 where e2: "net (Suc (Suc (length (calls w)))) (login_request c) = Raises e2" "is_timeout e2"
    by (auto elim: timed_outE)
  show ?thesis
    using tok e0 e1 e2
    by (simp add: authenticate_def upto_retry send_def log_msg_def MAX_AUTH_RETRY_COUNT_def numeral_3_eq_3)
qed

text \<open>The amended claim C1 on a fresh session whose network always times out.\<close>

theorem authenticate_three_timeouts_witness:
  "auth_token demo_client = JNull \<and>
   timed_out (scripted [Raises RequestsTimeout, Raises RequestsTimeout, Raises RequestsTimeout]
       (length (calls fresh_world) + 0) (login_request demo_client)) \<and>
   timed_out (scripted [Raises RequestsTimeout, Raises RequestsTimeout, Raises RequestsTimeout]
       (length (calls fresh_world) + 1) (login_request demo_client)) \<and>
   timed_out (scripted [Raises RequestsTimeout, Raises RequestsTimeout, Raises RequestsTimeout]
       (length (calls fresh_world) + 2) (login_request demo_client)) \<and>
   fst (authenticate (scripted [Raises RequestsTimeout, Raises RequestsTimeout, Raises RequestsTimeout])
          demo_client fresh_world)
     = Inl (PyException ''Authentication timed out maximum number of times.'') \<and>
   length (calls (snd (snd (authenticate
       (scripted [Raises RequestsTimeout, Raises RequestsTimeout, Raises RequestsTimeout])
       demo_client fresh_world)))) = 3"
proof -
  let ?net = "scripted [Raises RequestsTimeout, Raises RequestsTimeout, Raises RequestsTimeout]"
  have h1: "auth_token demo_client = JNull" by (simp add: demo_client_def)
  have h2: "\<forall>k<3. timed_out (?net (length (calls fresh_world) + k) (login_request demo_client))"
    by (simp add: scripted_def fresh_world_def nth_Cons split: nat.splits)
  from authenticate_three_timeouts[where c = demo_client and net = ?net and w = fresh_world, OF h1 h2] h1
  show ?thesis
    by (simp add: fresh_world_def scripted_def)
qed

subsection \<open>Exceptions of the transport\<close>

text \<open>
  Claim C10: during \<open>authenticate\<close> only a timeout of the transport is retried. When
  the attempts before attempt \<open>k\<close> timed out and attempt \<open>k\<close> does not, the login POST has
  been sent \<open>k + 1\<close> times and never again; and when attempt \<open>k\<close> raises an exception that
  is not a timeout, \<open>authenticate\<close> ends with that very exception, the client untouched
  and nothing logged but the warnings of the earlier retries.
\<close>

theorem authenticate_other_exception_propagates:
  assumes tok: "auth_token c = JNull"
    and k: "k < 3"
    and t: "\<forall>j<k. timed_out (net (length (calls w) + j) (login_request c))"
    and nt: "\<not> timed_out (net (length (calls w) + k) (login_request c))"
  shows "calls (snd (snd (authenticate net c w))) = calls w @ replicate (Suc k) (login_request c) \<and>
    (\<forall>e. net (length (calls w) + k) (login_request c) = Raises e \<longrightarrow>
       authenticate net c w =
         (Inl e, c,
          w\<lparr>calls := calls w @ replicate (Suc k) (login_request c),
            log_events := log_events w @ (Info, ''Authenticating...'') #
               replicate k (Warning, ''Authentication timed out, but will retry.'')\<rparr>))"
proof -
  let ?w0 = "log_msg Info ''Authenticating...'' w"
  have len: "length (calls ?w0) = length (calls w)" by (simp add: log_msg_def)
  have t': "\<forall>j<k. timed_out (net (length (calls ?w0) + j) (login_request c))"
    using t by (simp add: log_msg_def)
  have nt': "\<not> timed_out (net (length (calls ?w0) + k) (login_request c))"
    using nt by (simp add: log_msg_def)
  have loop: "login_attempts net c [0, 1, 2] ?w0 =
     ((case net (length (calls w) + k) (login_request c) of Responds r \<Rightarrow> Inr r | Raises e \<Rightarrow> Inl e),
      ?w0\<lparr>calls := calls ?w0 @ replicate (Suc k) (login_request c),
        log_events := log_events ?w0 @ replicate k (Warning, ''Authentication timed out, but will retry.'')\<rparr>)"
    using login_attempts_after_timeouts[where k = k and net = net and w = ?w0 and c = c, OF k t' nt'] by (simp only: len)
  show ?thesis
  proof (cases "net (length (calls w) + k) (login_request c)")
    case (Raises e)
    with loop tok show ?thesis
      by (simp add: authenticate_unfold log_msg_def)
  next
    case (Responds r)
    with loop tok show ?thesis
      by (simp add: authenticate_unfold log_msg_def split: option.splits sum.splits)
  qed
qed

text \<open>Claim C10 on a session whose first login times out and whose second is refused.\<close>

theorem authenticate_other_exception_propagates_witness:
  "auth_token demo_client = JNull \<and>
   timed_out (scripted [Raises RequestsTimeout, Raises (RequestsError ''ConnectionError'')]
       (length (calls fresh_world) + 0) (login_request demo_client)) \<and>
   \<not> timed_out (scripted [Raises RequestsTimeout, Raises (RequestsError ''ConnectionError'')]
       (length (calls fresh_world) + 1) (login_request demo_client)) \<and>
   fst (authenticate (scripted [Raises RequestsTimeout, Raises (RequestsError ''ConnectionError'')])
          demo_client fresh_world) = Inl (RequestsError ''ConnectionError'') \<and>
   calls (snd (snd (authenticate (scripted [Raises RequestsTimeout, Raises (RequestsError ''ConnectionError'')])
          demo_client fresh_world))) = [login_request demo_client, login_request demo_client]"
proof -
  let ?net = "scripted [Raises RequestsTimeout, Raises (RequestsError ''ConnectionError'')]"
  have h1: "auth_token demo_client = JNull" by (simp add: demo_client_def)
  have h2: "(1::nat) < 3" by simp
  have h3: "\<forall>j<1. timed_out (?net (length (calls fresh_world) + j) (login_request demo_client))"
    by (simp add: scripted_def fresh_world_def)
  have h4: "\<not> timed_out (?net (length (calls fresh_world) + 1) (login_request demo_client))"
    by (simp add: scripted_def fresh_world_def)
  have h5: "?net (length (calls fresh_world) + 1) (login_request demo_client) = Raises (RequestsError ''ConnectionError'')"
    by (simp add: scripted_def fresh_world_def)
  from authenticate_other_exception_propagates[where c = demo_client and net = ?net and w = fresh_world and k = 1,
      OF h1 h2 h3 h4] h5 h1 h4
  show ?thesis
    by (simp add: fresh_world_def scripted_def)
qed

subsection \<open>Rejected logins\<close>

text \<open>
  Claim C5 as stated fails: a successful login response whose body is the JSON array
  \<open>[]\<close> has no \<open>token\<close> field, and \<open>authenticate\<close> ends with the \<open>AttributeError\<close> of
  \<open>content.get\<close>, not with \<open>TVDBAuthenticationException\<close>.
\<close>

theorem authenticate_login_body_not_object:
  "fst (authenticate (scripted [json_response 200 ''[]'' (JArr [])]) demo_client fresh_world)
     = Inl (AttributeError ([CHR 0x27] @ ''list'' @ [CHR 0x27] @ '' object has no attribute '' @
                            [CHR 0x27] @ ''get'' @ [CHR 0x27])) \<and>
   \<not> raises_authentication_error
       (fst (authenticate (scripted [json_response 200 ''[]'' (JArr [])]) demo_client fresh_world))"
  by (simp add: authenticate_def upto_retry send_def log_msg_def MAX_AUTH_RETRY_COUNT_def
        scripted_def demo_client_def fresh_world_def raises_authentication_error_def json_response_def)

text \<open>
  Claim C5, amended: for every client without a token whose login gets a response
  (after \<open>k < 3\<close> timeouts), if the status code is outside 200-299, or the status is a
  success and the body parses to a JSON object whose \<open>token\<close> is missing or null,
  \<open>authenticate\<close> raises \<open>TVDBAuthenticationException\<close> (its message carrying the status
  code in the first case), the client is left as it was, without a token, and the next
  \<open>authenticate\<close> sends the login request again, whatever the network then does.
\<close>

theorem authenticate_rejected_login:
  assumes tok: "auth_token c = JNull"
    and k: "k < 3"
    and t: "\<forall>j<k. timed_out (net (length (calls w) + j) (login_request c))"
    and resp: "net (length (calls w) + k) (login_request c) = Responds r"
    and rej: "status_code r < 200 \<or> 300 \<le> status_code r \<or>
              (\<exists>kvs. resp_json r = Some (JObj kvs) \<and>
                     (map_of kvs ''token'' = None \<or> map_of kvs ''token'' = Some JNull))"
  shows "\<exists>w1. authenticate net c w =
           (Inl (TVDBAuthenticationException
                   (if status_code r < 200 \<or> 300 \<le> status_code r
                    then ''Authentication failed with status code: '' @ str_int (status_code r)
                    else ''Failed to get token from login request'')),
            c, w1) \<and>
         calls w1 = calls w @ replicate (Suc k) (login_request c) \<and>
         (\<forall>net'. \<exists>j. 0 < j \<and>
            calls (snd (snd (authenticate net' c w1))) = calls w1 @ replicate j (login_request c))"
proof -
  let ?w0 = "log_msg Info ''Authenticating...'' w"
  have len: "length (calls ?w0) = length (calls w)" by (simp add: log_msg_def)
  from resp have nt: "\<not> timed_out (net (length (calls w) + k) (login_request c))" by simp
  have t': "\<forall>j<k. timed_out (net (length (calls ?w0) + j) (login_request c))"
    using t by (simp add: log_msg_def)
  have nt': "\<not> timed_out (net (length (calls ?w0) + k) (login_request c))"
    using nt by (simp add: log_msg_def)
  have loop: "login_attempts net c [0, 1, 2] ?w0 =
     (Inr r,
      ?w0\<lparr>calls := calls ?w0 @ replicate (Suc k) (login_request c),
        log_events := log_events ?w0 @ replicate k (Warning, ''Authentication timed out, but will retry.'')\<rparr>)"
    using login_attempts_after_timeouts[where k = k and net = net and w = ?w0 and c = c, OF k t' nt'] resp by (simp only: len outcome.case)
  have again: "\<exists>j. 0 < j \<and> calls (snd (snd (authenticate net' c w1))) = calls w1 @ replicate j (login_request c)"
    for net' w1
    using authenticate_calls[of c net' w1] tok by auto
  show ?thesis
  proof (cases "status_code r < 200 \<or> 300 \<le> status_code r")
    case True
    with loop tok have "authenticate net c w =
        (Inl (TVDBAuthenticationException (''Authentication failed with status code: '' @ str_int (status_code r))), c,
         log_msg Error (''Authentication failed withs status code: '' @ str_int (status_code r))
          (?w0\<lparr>calls := calls ?w0 @ replicate (Suc k) (login_request c),
        log_events := log_events ?w0 @ replicate k (Warning, ''Authentication timed out, but will retry.'')\<rparr>))"
      by (simp add: authenticate_unfold)
    with True again show ?thesis
      by (simp add: log_msg_def)
  next
    case False
    with rej obtain kvs where kvs: "resp_json r = Some (JObj kvs)"
       "map_of kvs ''token'' = None \<or> map_of kvs ''token'' = Some JNull" by blast
    then have "py_get (JObj kvs) ''token'' = Inr JNull" by auto
    with False kvs loop tok have "authenticate net c w =
        (Inl (TVDBAuthenticationException ''Failed to get token from login request''), c,
         log_msg Error ''Failed to get token from login request''
          (?w0\<lparr>calls := calls ?w0 @ replicate (Suc k) (login_request c),
        log_events := log_events ?w0 @ replicate k (Warning, ''Authentication timed out, but will retry.'')\<rparr>))"
      by (simp add: authenticate_unfold)
    with False again show ?thesis
      by (simp add: log_msg_def)
  qed
qed

text \<open>
  The amended claim C5 on two sessions: a 401 after one timeout, and a 200 whose body
  is the empty JSON object.
\<close>

theorem authenticate_rejected_login_witness:
  "auth_token demo_client = JNull \<and>
   fst (authenticate (scripted [Raises RequestsTimeout, json_response 401 ''Not Authorized'' (JStr ''Not Authorized'')])
          demo_client fresh_world)
     = Inl (TVDBAuthenticationException ''Authentication failed with status code: 401'') \<and>
   fst (snd (authenticate (scripted [Raises RequestsTimeout, json_response 401 ''Not Authorized'' (JStr ''Not Authorized'')])
          demo_client fresh_world)) = demo_client \<and>
   fst (authenticate (scripted [json_response 200 ''{}'' (JObj [])]) demo_client fresh_world)
     = Inl (TVDBAuthenticationException ''Failed to get token from login request'') \<and>
   fst (snd (authenticate (scripted [json_response 200 ''{}'' (JObj [])]) demo_client fresh_world)) = demo_client"
proof -
  let ?r1 = "\<lparr>status_code = 401, resp_text = ''Not Authorized'', resp_json = Some (JStr ''Not Authorized'')\<rparr>"
  let ?r2 = "\<lparr>status_code = 200, resp_text = ''{}'', resp_json = Some (JObj [])\<rparr>"
  let ?net1 = "scripted [Raises RequestsTimeout, json_response 401 ''Not Authorized'' (JStr ''Not Authorized'')]"
  let ?net2 = "scripted [json_response 200 ''{}'' (JObj [])]"
  have tok: "auth_token demo_client = JNull" by (simp add: demo_client_def)
  have k1: "(1::nat) < 3" and k0: "(0::nat) < 3" by simp_all
  have t1: "\<forall>j<1. timed_out (?net1 (length (calls fresh_world) + j) (login_request demo_client))"
    by (simp add: scripted_def fresh_world_def)
  have t0: "\<forall>j<0. timed_out (?net2 (length (calls fresh_world) + j) (login_request demo_client))"
    by simp
  have r1: "?net1 (length (calls fresh_world) + 1) (login_request demo_client) = Responds ?r1"
    by (simp add: scripted_def fresh_world_def json_response_def)
  have r2: "?net2 (length (calls fresh_world) + 0) (login_request demo_client) = Responds ?r2"
    by (simp add: scripted_def fresh_world_def json_response_def)
  have rej1: "status_code ?r1 < 200 \<or> 300 \<le> status_code ?r1 \<or>
              (\<exists>kvs. resp_json ?r1 = Some (JObj kvs) \<and>
                     (map_of kvs ''token'' = None \<or> map_of kvs ''token'' = Some JNull))"
    by simp
  have rej2: "status_code ?r2 < 200 \<or> 300 \<le> status_code ?r2 \<or>
              (\<exists>kvs. resp_json ?r2 = Some (JObj kvs) \<and>
                     (map_of kvs ''token'' = None \<or> map_of kvs ''token'' = Some JNull))"
    by simp
  from authenticate_rejected_login[where c = demo_client and net = ?net1 and w = fresh_world and k = 1
      and r = ?r1, OF tok k1 t1 r1 rej1]
  have a1: "fst (authenticate ?net1 demo_client fresh_world)
     = Inl (TVDBAuthenticationException ''Authentication failed with status code: 401'') \<and>
     fst (snd (authenticate ?net1 demo_client fresh_world)) = demo_client"
    by (auto simp: str_int_401)
  from authenticate_rejected_login[where c = demo_client and net = ?net2 and w = fresh_world and k = 0
      and r = ?r2, OF tok k0 t0 r2 rej2]
  have a2: "fst (authenticate ?net2 demo_client fresh_world)
     = Inl (TVDBAuthenticationException ''Failed to get token from login request'') \<and>
     fst (snd (authenticate ?net2 demo_client fresh_world)) = demo_client"
    by auto
  from tok a1 a2 show ?thesis by simp
qed

subsection \<open>Idempotence\<close>

text \<open>
  Claim C6: \<open>authenticate\<close> is idempotent. On a client that holds a token it succeeds
  with no network call and the client (its token) unchanged; and after an
  \<open>authenticate\<close> that succeeded, the client holds a token and a second call succeeds
  with no further network call, whatever the network would do.
\<close>

theorem authenticate_idempotent:
  "(auth_token c \<noteq> JNull \<longrightarrow>
      authenticate net c w = (Inr (), c, log_msg Debug ''Already authenticated, skipping'' w) \<and>
      calls (log_msg Debug ''Already authenticated, skipping'' w) = calls w) \<and>
   (authenticate net c w = (Inr (), c1, w1) \<longrightarrow>
      auth_token c1 \<noteq> JNull \<and>
      fst (authenticate net' c1 w1) = Inr () \<and>
      fst (snd (authenticate net' c1 w1)) = c1 \<and>
      calls (snd (snd (authenticate net' c1 w1))) = calls w1)"
proof -
  have held: "authenticate n d v = (Inr (), d, log_msg Debug ''Already authenticated, skipping'' v) \<and>
      calls (log_msg Debug ''Already authenticated, skipping'' v) = calls v"
    if "auth_token d \<noteq> JNull" for n d v
    using that by (simp add: authenticate_def log_msg_def)
  have stored: "auth_token c1 \<noteq> JNull" if ok: "authenticate net c w = (Inr (), c1, w1)"
  proof (cases "auth_token c = JNull")
    case False
    with ok held[of c net w] show ?thesis by simp
  next
    case True
    with ok show ?thesis
      by (auto simp: authenticate_unfold split: prod.splits sum.splits if_splits option.splits)
  qed
  show ?thesis using held stored by (simp add: log_msg_def)
qed

text \<open>
  Claim C6 on a client that holds a token, and on a fresh client whose login is answered
  with the token \<open>abc123\<close>.
\<close>

theorem authenticate_idempotent_witness:
  "auth_token (demo_client\<lparr>auth_token := JStr ''abc123''\<rparr>) \<noteq> JNull \<and>
   calls (snd (snd (authenticate (scripted []) (demo_client\<lparr>auth_token := JStr ''abc123''\<rparr>) fresh_world))) = [] \<and>
   fst (authenticate (scripted [login_ok]) demo_client fresh_world) = Inr () \<and>
   fst (snd (authenticate (scripted [login_ok]) demo_client fresh_world)) = demo_client\<lparr>auth_token := JStr ''abc123''\<rparr> \<and>
   calls (snd (snd (authenticate (scripted [login_ok]) demo_client fresh_world))) = [login_request demo_client] \<and>
   calls (snd (snd (authenticate (scripted [login_ok])
            (fst (snd (authenticate (scripted [login_ok]) demo_client fresh_world)))
            (snd (snd (authenticate (scripted [login_ok]) demo_client fresh_world)))))) = [login_request demo_client]"
proof -
  let ?c1 = "demo_client\<lparr>auth_token := JStr ''abc123''\<rparr>"
  let ?w1 = "\<lparr>calls = [login_request demo_client],
              log_events = [(Info, ''Authenticating...''), (Info, ''Authenticated successfully'')]\<rparr>"
  have held: "auth_token ?c1 \<noteq> JNull" by simp
  have first: "authenticate (scripted [login_ok]) demo_client fresh_world = (Inr (), ?c1, ?w1)"
    by (simp add: authenticate_def upto_retry send_def log_msg_def MAX_AUTH_RETRY_COUNT_def
        scripted_def demo_client_def fresh_world_def login_ok_def json_response_def)
  from authenticate_idempotent[where c = ?c1 and net = "scripted []" and w = fresh_world] held
  have a: "calls (snd (snd (authenticate (scripted []) ?c1 fresh_world))) = []"
    by (simp add: fresh_world_def)
  from authenticate_idempotent[where c = demo_client and net = "scripted [login_ok]" and w = fresh_world
      and ?c1.0 = ?c1 and ?w1.0 = ?w1 and net' = "scripted [login_ok]"] first
  have b: "calls (snd (snd (authenticate (scripted [login_ok]) ?c1 ?w1))) = [login_request demo_client]"
    by simp
  from held a b first show ?thesis by simp
qed

section \<open>The request gateway\<close>

text \<open>
  \<open>get\<close> on a path that is not empty, once the authentication has succeeded and the
  server has answered.
\<close>

lemma get_unfold:
  assumes p: "p \<noteq> []"
    and auth: "authenticate net c w = (Inr (), c1, w1)"
    and resp: "net (length (calls w1)) (get_request c1 p timeout) = Responds r"
  shows "get net (Some p) timeout c w =
     (classify_response p r, c1,
      w1\<lparr>calls := calls w1 @ [get_request c1 p timeout],
         log_events := log_events w1 @ [(Info, ''GET: '' @ p)]\<rparr>)"
  using p auth resp by (simp add: get_def send_def log_msg_def)

text \<open>
The sessions used below: a login answered with \<open>login_ok\<close>, then one more call.
\<close>

lemma demo_login:
  "authenticate (scripted (login_ok # rest)) demo_client fresh_world = (Inr (), demo_session, logged_in)"
  by (simp add: authenticate_def upto_retry send_def log_msg_def MAX_AUTH_RETRY_COUNT_def
        scripted_def demo_client_def fresh_world_def login_ok_def json_response_def
        demo_session_def logged_in_def)

lemma demo_second_call:
  "scripted (login_ok # out # rest) (length (calls logged_in)) rq = out"
  by (simp add: scripted_def logged_in_def)



subsection \<open>Blank paths\<close>

text \<open>
  Claim C7: \<open>get\<close> with the path \<open>None\<close> or the empty string raises the
  invalid-argument error (\<open>AttributeError\<close>) and leaves the client and the world as they
  were: no login, no GET, not even a log line.
\<close>

theorem get_rejects_blank_path:
  "get net None timeout c w = (Inl (AttributeError ''An invalid URL path was supplied''), c, w) \<and>
   get net (Some '''') timeout c w = (Inl (AttributeError ''An invalid URL path was supplied''), c, w)"
  by (simp add: get_def)

text \<open>
Claim C7 on a fresh session.
\<close>

theorem get_rejects_blank_path_witness:
  "get (scripted []) None 10 demo_client fresh_world
     = (Inl (AttributeError ''An invalid URL path was supplied''), demo_client, fresh_world) \<and>
   get (scripted []) (Some '''') 10 demo_client fresh_world
     = (Inl (AttributeError ''An invalid URL path was supplied''), demo_client, fresh_world) \<and>
   calls fresh_world = []"
  using get_rejects_blank_path[of "scripted []" 10 demo_client fresh_world]
  by (simp add: fresh_world_def)

subsection \<open>Error responses\<close>

text \<open>
  Claim C3 as stated fails: a body that parses but is not a JSON object has no \<open>Error\<close>
  field, and \<open>get\<close> ends with the \<open>AttributeError\<close> of \<open>data.get\<close>, which is neither the
  generic API error nor the not-found error.
\<close>

theorem get_error_body_not_object:
  "fst (get (scripted [login_ok, empty_array 500]) (Some ''series/1'') 10 demo_client fresh_world)
     = Inl list_attribute_error \<and>
   \<not> raises_api_error
       (fst (get (scripted [login_ok, empty_array 500]) (Some ''series/1'') 10 demo_client fresh_world)) \<and>
   \<not> raises_not_found
       (fst (get (scripted [login_ok, empty_array 500]) (Some ''series/1'') 10 demo_client fresh_world))"
  by (simp add: get_def Let_def demo_login send_def log_msg_def demo_second_call[unfolded logged_in_def, simplified]
        logged_in_def empty_array_def json_response_def classify_response_def list_attribute_error_def
        raises_api_error_def raises_not_found_def)

text \<open>
  Claim C3, amended: for every \<open>get\<close> whose response has a status code outside
  [200, 300): if the body does not parse as JSON, the call fails with \<open>TVDBException\<close>
  carrying the raw text; if it parses to a JSON object whose \<open>Error\<close> is missing or null,
  it fails with \<open>TVDBException\<close> carrying the raw text; if \<open>Error\<close> is the string
  "Resource not found", it fails with \<open>NotFoundException\<close>; and for any other \<open>Error\<close>
  it fails with \<open>TVDBException\<close> carrying the raw text.
\<close>

theorem get_error_response:
  assumes p: "p \<noteq> []"
    and auth: "authenticate net c w = (Inr (), c1, w1)"
    and resp: "net (length (calls w1)) (get_request c1 p timeout) = Responds r"
    and status: "status_code r < 200 \<or> 300 \<le> status_code r"
  shows "(resp_json r = None \<longrightarrow>
            fst (get net (Some p) timeout c w)
              = Inl (TVDBException (''Could not decode error response: '' @ resp_text r))) \<and>
         (\<forall>kvs. resp_json r = Some (JObj kvs) \<longrightarrow>
            (map_of kvs ''Error'' = None \<or> map_of kvs ''Error'' = Some JNull \<longrightarrow>
               fst (get net (Some p) timeout c w)
                 = Inl (TVDBException (''Could not get error information: '' @ resp_text r))) \<and>
            (map_of kvs ''Error'' = Some (JStr ''Resource not found'') \<longrightarrow>
               fst (get net (Some p) timeout c w)
                 = Inl (NotFoundException (''Could not find resource for path: '' @ p))) \<and>
            (\<forall>v. map_of kvs ''Error'' = Some v \<and> v \<noteq> JNull \<and> v \<noteq> JStr ''Resource not found'' \<longrightarrow>
               fst (get net (Some p) timeout c w)
                 = Inl (TVDBException (''Unknown error: '' @ resp_text r))))"
  using status by (auto simp: get_unfold[OF p auth resp] classify_response_def)

text \<open>
  The amended claim C3 on four answers: a 500 that is not JSON, a 400 with the empty
  object, a 404 "Resource not found" and a 401 with another error.
\<close>

theorem get_error_response_witness:
  \<open>fst (get (scripted [login_ok, server_error]) (Some ''series/1'') 10 demo_client fresh_world)
     = Inl (TVDBException ''Could not decode error response: <html>Internal Server Error</html>'') \<and>
   fst (get (scripted [login_ok, empty_object 400]) (Some ''series/1'') 10 demo_client fresh_world)
     = Inl (TVDBException ''Could not get error information: {}'') \<and>
   fst (get (scripted [login_ok, resource_not_found]) (Some ''series/1'') 10 demo_client fresh_world)
     = Inl (NotFoundException ''Could not find resource for path: series/1'') \<and>
   fst (get (scripted [login_ok, not_authorized]) (Some ''series/1'') 10 demo_client fresh_world)
     = Inl (TVDBException ''Unknown error: {"Error": "Not authorized"}'')\<close>
proof -
  let ?get = "\<lambda>out. fst (get (scripted [login_ok, out]) (Some ''series/1'') 10 demo_client fresh_world)"
  let ?r1 = "\<lparr>status_code = 500, resp_text = ''<html>Internal Server Error</html>'', resp_json = None\<rparr>"
  let ?r2 = "\<lparr>status_code = 400, resp_text = ''{}'', resp_json = Some (JObj [])\<rparr>"
  let ?r3 = \<open>\<lparr>status_code = 404, resp_text = ''{"Error": "Resource not found"}'',
              resp_json = Some (JObj [(''Error'', JStr ''Resource not found'')])\<rparr>\<close>
  let ?r4 = \<open>\<lparr>status_code = 401, resp_text = ''{"Error": "Not authorized"}'',
              resp_json = Some (JObj [(''Error'', JStr ''Not authorized'')])\<rparr>\<close>
  have p: "''series/1'' \<noteq> []" by simp
  let ?rq = "get_request demo_session ''series/1'' 10"
  have o1: "scripted [login_ok, server_error] (length (calls logged_in)) ?rq = Responds ?r1"
    by (simp add: demo_second_call server_error_def)
  have o2: "scripted [login_ok, empty_object 400] (length (calls logged_in)) ?rq = Responds ?r2"
    by (simp add: demo_second_call empty_object_def json_response_def)
  have o3: "scripted [login_ok, resource_not_found] (length (calls logged_in)) ?rq = Responds ?r3"
    by (simp add: demo_second_call resource_not_found_def json_response_def)
  have o4: "scripted [login_ok, not_authorized] (length (calls logged_in)) ?rq = Responds ?r4"
    by (simp add: demo_second_call not_authorized_def json_response_def)
  have s1: "status_code ?r1 < 200 \<or> 300 \<le> status_code ?r1" by simp
  have s2: "status_code ?r2 < 200 \<or> 300 \<le> status_code ?r2" by simp
  have s3: "status_code ?r3 < 200 \<or> 300 \<le> status_code ?r3" by simp
  have s4: "status_code ?r4 < 200 \<or> 300 \<le> status_code ?r4" by simp
  from get_error_response[where net = "scripted [login_ok, server_error]" and c = demo_client
      and w = fresh_world and r = ?r1, OF p demo_login o1 s1]
  have a1: "?get server_error = Inl (TVDBException ''Could not decode error response: <html>Internal Server Error</html>'')"
    by simp
  from get_error_response[where net = "scripted [login_ok, empty_object 400]" and c = demo_client
      and w = fresh_world and r = ?r2, OF p demo_login o2 s2]
  have a2: "?get (empty_object 400) = Inl (TVDBException ''Could not get error information: {}'')"
    by simp
  from get_error_response[where net = "scripted [login_ok, resource_not_found]" and c = demo_client
      and w = fresh_world and r = ?r3, OF p demo_login o3 s3]
  have a3: "?get resource_not_found = Inl (NotFoundException ''Could not find resource for path: series/1'')"
    by simp
  from get_error_response[where net = "scripted [login_ok, not_authorized]" and c = demo_client
      and w = fresh_world and r = ?r4, OF p demo_login o4 s4]
  have a4: \<open>?get not_authorized = Inl (TVDBException ''Unknown error: {"Error": "Not authorized"}'')\<close>
    by simp
  from a1 a2 a3 a4 show ?thesis by simp
qed

subsection \<open>Successful responses\<close>

text \<open>
  Claim C4 as stated fails: a successful response whose body is the JSON array \<open>[]\<close> has
  no \<open>data\<close> key, and \<open>get\<close> ends with the \<open>AttributeError\<close> of \<open>content.get\<close>, not with
  \<open>NotFoundException\<close>.
\<close>

theorem get_success_body_not_object:
  "fst (get (scripted [login_ok, empty_array 200]) (Some ''series/1'') 10 demo_client fresh_world)
     = Inl list_attribute_error \<and>
   \<not> raises_not_found
       (fst (get (scripted [login_ok, empty_array 200]) (Some ''series/1'') 10 demo_client fresh_world))"
  by (simp add: get_def Let_def demo_login send_def log_msg_def demo_second_call[unfolded logged_in_def, simplified]
        logged_in_def empty_array_def json_response_def classify_response_def list_attribute_error_def
        raises_not_found_def)

text \<open>
  Claim C4, amended: for every \<open>get\<close> whose response has a status code in [200, 300)
  and a body that parses to a JSON object, the call fails with \<open>NotFoundException\<close> if
  the object has no \<open>data\<close> key or its value is null, and returns the value of \<open>data\<close>
  otherwise.
\<close>

theorem get_success_response:
  assumes p: "p \<noteq> []"
    and auth: "authenticate net c w = (Inr (), c1, w1)"
    and resp: "net (length (calls w1)) (get_request c1 p timeout) = Responds r"
    and status: "200 \<le> status_code r" "status_code r < 300"
    and body: "resp_json r = Some (JObj kvs)"
  shows "(map_of kvs ''data'' = None \<or> map_of kvs ''data'' = Some JNull \<longrightarrow>
            fst (get net (Some p) timeout c w)
              = Inl (NotFoundException (''Could not get data for path: '' @ p))) \<and>
         (\<forall>d. map_of kvs ''data'' = Some d \<and> d \<noteq> JNull \<longrightarrow>
            fst (get net (Some p) timeout c w) = Inr d)"
  using status body by (auto simp: get_unfold[OF p auth resp] classify_response_def)

text \<open>
  The amended claim C4 on three answers: \<open>data\<close> null, no \<open>data\<close> at all, and a show
  under \<open>data\<close>.
\<close>

theorem get_success_response_witness:
  "fst (get (scripted [login_ok, null_data]) (Some ''series/1'') 10 demo_client fresh_world)
     = Inl (NotFoundException ''Could not get data for path: series/1'') \<and>
   fst (get (scripted [login_ok, empty_object 200]) (Some ''series/1'') 10 demo_client fresh_world)
     = Inl (NotFoundException ''Could not get data for path: series/1'') \<and>
   fst (get (scripted [login_ok, series_data]) (Some ''series/1'') 10 demo_client fresh_world)
     = Inr (JObj [(''id'', JInt 1), (''seriesName'', JStr ''The Wire'')])"
proof -
  let ?get = "\<lambda>out. fst (get (scripted [login_ok, out]) (Some ''series/1'') 10 demo_client fresh_world)"
  let ?k1 = "[(''data'', JNull)]"
  let ?k2 = "[] :: (string \<times> json) list"
  let ?k3 = "[(''data'', JObj [(''id'', JInt 1), (''seriesName'', JStr ''The Wire'')])]"
  let ?r1 = \<open>\<lparr>status_code = 200, resp_text = ''{"data": null}'', resp_json = Some (JObj ?k1)\<rparr>\<close>
  let ?r2 = "\<lparr>status_code = 200, resp_text = ''{}'', resp_json = Some (JObj ?k2)\<rparr>"
  let ?r3 = \<open>\<lparr>status_code = 200, resp_text = ''{"data": {"id": 1, "seriesName": "The Wire"}}'',
              resp_json = Some (JObj ?k3)\<rparr>\<close>
  have p: "''series/1'' \<noteq> []" by simp
  let ?rq = "get_request demo_session ''series/1'' 10"
  have o1: "scripted [login_ok, null_data] (length (calls logged_in)) ?rq = Responds ?r1"
    by (simp add: demo_second_call null_data_def json_response_def)
  have o2: "scripted [login_ok, empty_object 200] (length (calls logged_in)) ?rq = Responds ?r2"
    by (simp add: demo_second_call empty_object_def json_response_def)
  have o3: "scripted [login_ok, series_data] (length (calls logged_in)) ?rq = Responds ?r3"
    by (simp add: demo_second_call series_data_def json_response_def)
  have lo1: "200 \<le> status_code ?r1" and hi1: "status_code ?r1 < 300" and b1: "resp_json ?r1 = Some (JObj ?k1)"
    by simp_all
  have lo2: "200 \<le> status_code ?r2" and hi2: "status_code ?r2 < 300" and b2: "resp_json ?r2 = Some (JObj ?k2)"
    by simp_all
  have lo3: "200 \<le> status_code ?r3" and hi3: "status_code ?r3 < 300" and b3: "resp_json ?r3 = Some (JObj ?k3)"
    by simp_all
  from get_success_response[where net = "scripted [login_ok, null_data]" and c = demo_client
      and w = fresh_world and r = ?r1, OF p demo_login o1 lo1 hi1 b1]
  have a1: "?get null_data = Inl (NotFoundException ''Could not get data for path: series/1'')"
    by simp
  from get_success_response[where net = "scripted [login_ok, empty_object 200]" and c = demo_client
      and w = fresh_world and r = ?r2, OF p demo_login o2 lo2 hi2 b2]
  have a2: "?get (empty_object 200) = Inl (NotFoundException ''Could not get data for path: series/1'')"
    by simp
  from get_success_response[where net = "scripted [login_ok, series_data]" and c = demo_client
      and w = fresh_world and r = ?r3, OF p demo_login o3 lo3 hi3 b3]
  have a3: "?get series_data = Inr (JObj [(''id'', JInt 1), (''seriesName'', JStr ''The Wire'')])"
    by simp
  from a1 a2 a3 show ?thesis by simp
qed

section \<open>Searching for shows\<close>

text \<open>
  Claim C8: \<open>search_show\<close> with the name \<open>None\<close> or the empty string returns the empty
  list and leaves the client and the world as they were: no login and no GET.
\<close>

theorem search_show_blank_name:
  "search_show net quote from_json None timeout c w = (Inr [], c, w) \<and>
   search_show net quote from_json (Some '''') timeout c w = (Inr [], c, w)"
  by (simp add: search_show_def)

text \<open>
Claim C8 on a fresh session.
\<close>

theorem search_show_blank_name_witness:
  "search_show (scripted []) url_quote show_from_json None 10 demo_client fresh_world
     = (Inr [], demo_client, fresh_world) \<and>
   search_show (scripted []) url_quote show_from_json (Some '''') 10 demo_client fresh_world
     = (Inr [], demo_client, fresh_world) \<and>
   calls fresh_world = []"
  using search_show_blank_name[of "scripted []" url_quote show_from_json 10 demo_client fresh_world]
  by (simp add: fresh_world_def)







end
